theory Spec2Isabelle
  imports Complex_Main "HOL-Library.Log_Nat"
begin

section \<open>JavaScript numbers\<close>

text \<open>
  A JavaScript \<open>number\<close> is an IEEE 754 double: a finite value, given by its exact
  rational value (\<open>Num 0\<close> is the positive zero), the negative zero, one of the two
  infinities, or NaN. Arithmetic rounds the exact result to the nearest double, ties to
  the even significand, with gradual underflow and overflow to the infinities; \<open>0 / 0\<close>
  is NaN, \<open>x / 0\<close> is an infinity, and every comparison with NaN is false. A property
  read as \<open>undefined\<close> behaves as NaN in arithmetic and is represented by \<open>NaN\<close>.
\<close>

datatype jsnum = Num rat | NegZero | PosInf | NegInf | NaN

text \<open>Rounding to the nearest integer, a tie to the even one.\<close>

definition rne :: "rat \<Rightarrow> int" where
  "rne y =
     (let f = \<lfloor>y\<rfloor>; d = y - of_int f
      in if d < 1 / 2 then f else if 1 / 2 < d then f + 1
         else if even f then f else f + 1)"

text \<open>The binary exponent of a positive rational: \<open>2 ^ e \<le> m < 2 ^ (e + 1)\<close>.\<close>

definition exponent :: "rat \<Rightarrow> int" where
  "exponent m = (if 1 \<le> m then bitlen \<lfloor>m\<rfloor> - 1 else - bitlen (\<lceil>1 / m\<rceil> - 1))"

definition sign_zero :: "bool \<Rightarrow> jsnum" where
  "sign_zero neg = (if neg then NegZero else Num 0)"

definition sign_inf :: "bool \<Rightarrow> jsnum" where
  "sign_inf neg = (if neg then NegInf else PosInf)"

text \<open>
  The double nearest to an exact result: 53 significant bits, the exponent not below
  -1022 (below it the spacing stays that of the subnormal numbers), a zero when the
  magnitude rounds to nothing, and an infinity once the rounded magnitude reaches
  \<open>2 ^ 1024\<close>, that is, once its exponent is 1024.
\<close>

definition round_double :: "rat \<Rightarrow> jsnum" where
  "round_double x =
     (if x = 0 then Num 0
      else
        (let m = \<bar>x\<bar>;
             e = max (exponent m) (- 1022);
             ulp = 2 powi (e - 52);
             r = of_int (rne (m / ulp)) * ulp
         in if r = 0 then sign_zero (x < 0)
            else if 1024 \<le> exponent r then sign_inf (x < 0)
            else Num (if x < 0 then - r else r)))"

fun negative :: "jsnum \<Rightarrow> bool" where
  "negative (Num r) = (r < 0)"
| "negative NegZero = True"
| "negative NegInf = True"
| "negative PosInf = False"
| "negative NaN = False"

fun is_zero :: "jsnum \<Rightarrow> bool" where
  "is_zero (Num r) = (r = 0)"
| "is_zero NegZero = True"
| "is_zero _ = False"

fun is_inf :: "jsnum \<Rightarrow> bool" where
  "is_inf PosInf = True"
| "is_inf NegInf = True"
| "is_inf _ = False"

text \<open>The value of a finite number.\<close>

fun finite_value :: "jsnum \<Rightarrow> rat" where
  "finite_value (Num r) = r"
| "finite_value _ = 0"

text \<open>\<open>a / b\<close>\<close>

definition js_div :: "jsnum \<Rightarrow> jsnum \<Rightarrow> jsnum" where
  "js_div a b =
     (if a = NaN \<or> b = NaN then NaN
      else if is_inf a \<and> is_inf b then NaN
      else if is_zero a \<and> is_zero b then NaN
      else if is_inf a \<or> is_zero b then sign_inf (negative a \<noteq> negative b)
      else if is_inf b \<or> is_zero a then sign_zero (negative a \<noteq> negative b)
      else round_double (finite_value a / finite_value b))"

text \<open>\<open>a * b\<close>\<close>

definition js_mul :: "jsnum \<Rightarrow> jsnum \<Rightarrow> jsnum" where
  "js_mul a b =
     (if a = NaN \<or> b = NaN then NaN
      else if (is_inf a \<and> is_zero b) \<or> (is_zero a \<and> is_inf b) then NaN
      else if is_inf a \<or> is_inf b then sign_inf (negative a \<noteq> negative b)
      else if is_zero a \<or> is_zero b then sign_zero (negative a \<noteq> negative b)
      else round_double (finite_value a * finite_value b))"

text \<open>\<open>a > b\<close>: the two zeros compare equal.\<close>

fun js_gt :: "jsnum \<Rightarrow> jsnum \<Rightarrow> bool" where
  "js_gt NaN _ = False"
| "js_gt _ NaN = False"
| "js_gt PosInf PosInf = False"
| "js_gt PosInf _ = True"
| "js_gt _ PosInf = False"
| "js_gt NegInf _ = False"
| "js_gt _ NegInf = True"
| "js_gt a b = (finite_value b < finite_value a)"

text \<open>\<open>x || 0\<close> on a number: the falsy numbers are the zeros and NaN.\<close>

definition js_or_zero :: "jsnum \<Rightarrow> jsnum" where
  "js_or_zero x = (if is_zero x \<or> x = NaN then Num 0 else x)"

datatype js_error = TypeError

section \<open>Alert-level classifier (ComunidadController.determineAlertLevel)\<close>

datatype alert_level = Verde | Amarillo | Rojo

record attack_trend =
  percentage :: jsnum

record trend_summary =
  main_threat :: string

record tendencias =
  attack_trends :: "attack_trend list option"
  summary :: trend_summary

record overview =
  total_reports :: jsnum
  highest_impact_count :: jsnum

record analytics =
  community_overview :: "overview option"

text \<open>
  \<open>attack_trends?.[0]?.percentage || 0\<close>: a missing array and an empty array both give
  \<open>undefined\<close>, which \<open>||\<close> replaces by 0.
\<close>

definition topAttackPercentage :: "tendencias \<Rightarrow> jsnum" where
  "topAttackPercentage t =
     (case attack_trends t of
        None \<Rightarrow> Num 0
      | Some [] \<Rightarrow> Num 0
      | Some (e # _) \<Rightarrow> js_or_zero (percentage e))"

text \<open>
  Reading a field of an absent \<open>community_overview\<close> raises a TypeError; everything else
  in the function is arithmetic and comparison.
\<close>

definition determineAlertLevel :: "tendencias \<Rightarrow> analytics \<Rightarrow> js_error + alert_level" where
  "determineAlertLevel t a =
     (case community_overview a of
        None \<Rightarrow> Inl TypeError
      | Some analytics_overview \<Rightarrow>
          (let highImpactPercentage =
                 js_mul (js_div (highest_impact_count analytics_overview)
                                (total_reports analytics_overview)) (Num 100);
               top = topAttackPercentage t
           in if js_gt highImpactPercentage (Num 40) \<or> js_gt top (Num 60) then Inr Rojo
              else if js_gt highImpactPercentage (Num 20) \<or> js_gt top (Num 40) then Inr Amarillo
              else Inr Verde))"

text \<open>
  The top attack percentage in the words of the specification: the percentage of the
  first entry of the attack-type distribution, 0 if there is none.
\<close>

definition first_percentage :: "tendencias \<Rightarrow> jsnum" where
  "first_percentage t =
     (case attack_trends t of Some (e # _) \<Rightarrow> percentage e | _ \<Rightarrow> Num 0)"

section \<open>Catalogs and the catalog cache (AdminAPIService)\<close>

text \<open>
  A catalog entry as the translation code reads it: \<open>id\<close> and \<open>name\<close>. The admin
  portal's entries also carry \<open>created_at\<close>, which no function below reads.
\<close>

record catalog_item =
  item_id :: int
  item_name :: string

record CatalogData =
  attackTypes :: "catalog_item list"
  impacts :: "catalog_item list"
  statuses :: "catalog_item list"

record CatalogMaps =
  attackTypeMap :: "int \<rightharpoonup> string"
  impactMap :: "int \<rightharpoonup> string"
  statusMap :: "int \<rightharpoonup> string"

text \<open>
  Modelled from the spec: \<open>CatalogUtils.createLookupMaps\<close> is imported from
  \<open>utils/catalogUtils\<close>, which is not among the sources. It builds one id-to-name
  \<open>Map\<close> per catalog; a \<open>Map\<close> built from entries keeps the last value of a repeated key.
\<close>

definition lookup_map :: "catalog_item list \<Rightarrow> int \<rightharpoonup> string" where
  "lookup_map xs = map_of (rev (map (\<lambda>e. (item_id e, item_name e)) xs))"

text \<open>
  Modelled from the spec: \<open>createLookupMaps\<close> itself, one such map for each of the three
  catalogs.
\<close>

definition createLookupMaps :: "CatalogData \<Rightarrow> CatalogMaps" where
  "createLookupMaps c =
     \<lparr>attackTypeMap = lookup_map (attackTypes c),
      impactMap = lookup_map (impacts c),
      statusMap = lookup_map (statuses c)\<rparr>"

text \<open>
  Modelled from the spec: \<open>CatalogUtils.createDefaultCatalogs\<close> is not among the sources
  either. The built-in default holds the six attack types, four impact levels and four
  statuses, with the ids and names of the backend's \<open>ATTACK_TYPE_NAMES\<close>,
  \<open>IMPACT_NAMES\<close> and \<open>STATUS_NAMES\<close>.
\<close>

definition createDefaultCatalogs :: CatalogData where
  "createDefaultCatalogs =
     \<lparr>attackTypes =
        [\<lparr>item_id = 1, item_name = ''email''\<rparr>,
         \<lparr>item_id = 2, item_name = ''SMS''\<rparr>,
         \<lparr>item_id = 3, item_name = ''whatsapp''\<rparr>,
         \<lparr>item_id = 4, item_name = ''llamada''\<rparr>,
         \<lparr>item_id = 5, item_name = ''redes_sociales''\<rparr>,
         \<lparr>item_id = 6, item_name = ''otro''\<rparr>],
      impacts =
        [\<lparr>item_id = 1, item_name = ''ninguno''\<rparr>,
         \<lparr>item_id = 2, item_name = ''robo_datos''\<rparr>,
         \<lparr>item_id = 3, item_name = ''robo_dinero''\<rparr>,
         \<lparr>item_id = 4, item_name = ''cuenta_comprometida''\<rparr>],
      statuses =
        [\<lparr>item_id = 1, item_name = ''nuevo''\<rparr>,
         \<lparr>item_id = 2, item_name = ''revisado''\<rparr>,
         \<lparr>item_id = 3, item_name = ''en_investigacion''\<rparr>,
         \<lparr>item_id = 4, item_name = ''cerrado''\<rparr>]\<rparr>"

text \<open>
  The body of the reply to \<open>/reportes/catalogs\<close>: the catalogs either under \<open>data\<close> or
  at the top level; any of the arrays may be missing.
\<close>

record catalog_payload =
  p_attackTypes :: "catalog_item list option"
  p_impacts :: "catalog_item list option"
  p_statuses :: "catalog_item list option"

record api_response =
  resp_data :: "catalog_payload option"
  resp_top :: catalog_payload

text \<open>
  What \<open>this.request\<close> does when it is called: it throws, or it returns a body. The
  outcome is an input of the model; the model counts the calls.
\<close>

datatype fetch_outcome = RequestFailed | Response api_response

record service_state =
  catalogCache :: "CatalogData option"
  catalogMaps :: "CatalogMaps option"
  lastCacheTime :: int

definition initial_service_state :: service_state where
  "initial_service_state = \<lparr>catalogCache = None, catalogMaps = None, lastCacheTime = 0\<rparr>"

definition CACHE_TIMEOUT :: int where
  "CACHE_TIMEOUT = 5 * 60 * 1000"

definition isCacheValid :: "service_state \<Rightarrow> int \<Rightarrow> bool" where
  "isCacheValid st now = (now - lastCacheTime st < CACHE_TIMEOUT)"

text \<open>
  The \<open>try\<close> block of \<open>getCatalogs\<close> up to the assignment of the cache: \<open>None\<close> stands
  for every path into the \<open>catch\<close> (the request throws, or one of the two
  \<open>throw new Error\<close> is reached). An array is truthy even when empty.
\<close>

definition select_payload :: "api_response \<Rightarrow> catalog_payload option" where
  "select_payload r =
     (case resp_data r of
        Some d \<Rightarrow>
          (if p_attackTypes d \<noteq> None then Some d
           else if p_attackTypes (resp_top r) \<noteq> None then Some (resp_top r)
           else None)
      | None \<Rightarrow>
          (if p_attackTypes (resp_top r) \<noteq> None then Some (resp_top r) else None))"

definition parse_catalogs :: "fetch_outcome \<Rightarrow> CatalogData option" where
  "parse_catalogs net =
     (case net of
        RequestFailed \<Rightarrow> None
      | Response r \<Rightarrow>
          (case select_payload r of
             None \<Rightarrow> None
           | Some catalogData \<Rightarrow>
               (case (p_attackTypes catalogData, p_impacts catalogData, p_statuses catalogData) of
                  (Some ats, Some is, Some ss) \<Rightarrow>
                     Some \<lparr>attackTypes = ats, impacts = is, statuses = ss\<rparr>
                | _ \<Rightarrow> None)))"

text \<open>
  \<open>getCatalogs\<close> at time \<open>now\<close>, with the outcome \<open>net\<close> of the request should one be
  made. The result is the returned catalogs, the service afterwards and the number of
  requests made. The \<open>catch\<close> returns the default catalogs and assigns nothing.
\<close>

definition fetchCatalogs :: "int \<Rightarrow> fetch_outcome \<Rightarrow> service_state \<Rightarrow> CatalogData \<times> service_state \<times> nat" where
  "fetchCatalogs now net st =
     (case parse_catalogs net of
        Some c \<Rightarrow>
          (c, st\<lparr>catalogCache := Some c, catalogMaps := Some (createLookupMaps c),
                 lastCacheTime := now\<rparr>, 1)
      | None \<Rightarrow> (createDefaultCatalogs, st, 1))"

definition getCatalogs :: "int \<Rightarrow> fetch_outcome \<Rightarrow> service_state \<Rightarrow> CatalogData \<times> service_state \<times> nat" where
  "getCatalogs now net st =
     (case catalogCache st of
        Some c \<Rightarrow> if isCacheValid st now then (c, st, 0) else fetchCatalogs now net st
      | None \<Rightarrow> fetchCatalogs now net st)"

text \<open>
  \<open>getCatalogMaps\<close> returns \<open>this.catalogMaps!\<close>: the assertion is erased at run time, so
  the value returned is whatever the field holds, \<open>null\<close> (\<open>None\<close>) included.
\<close>

definition getCatalogMaps :: "int \<Rightarrow> fetch_outcome \<Rightarrow> service_state \<Rightarrow> CatalogMaps option \<times> service_state \<times> nat" where
  "getCatalogMaps now net st =
     (case catalogMaps st of
        Some m \<Rightarrow> (Some m, st, 0)
      | None \<Rightarrow>
          (case getCatalogs now net st of (_, st', n) \<Rightarrow> (catalogMaps st', st', n)))"

text \<open>\<open>m.get(id) || 'Desconocido'\<close>: a missing key and an empty name both give the fallback.\<close>

definition name_or_unknown :: "(int \<rightharpoonup> string) \<Rightarrow> int \<Rightarrow> string" where
  "name_or_unknown m i =
     (case m i of None \<Rightarrow> ''Desconocido'' | Some s \<Rightarrow> if s = [] then ''Desconocido'' else s)"

text \<open>Reading \<open>maps.attackTypeMap\<close> of a \<open>null\<close> \<open>maps\<close> raises a TypeError.\<close>

definition resolve_name :: "(CatalogMaps \<Rightarrow> int \<rightharpoonup> string) \<Rightarrow> int \<Rightarrow> fetch_outcome \<Rightarrow> service_state \<Rightarrow> int
    \<Rightarrow> (js_error + string) \<times> service_state \<times> nat" where
  "resolve_name field now net st i =
     (case getCatalogMaps now net st of
        (None, st', n) \<Rightarrow> (Inl TypeError, st', n)
      | (Some maps, st', n) \<Rightarrow> (Inr (name_or_unknown (field maps) i), st', n))"

definition getAttackTypeName :: "int \<Rightarrow> fetch_outcome \<Rightarrow> service_state \<Rightarrow> int \<Rightarrow> (js_error + string) \<times> service_state \<times> nat" where
  "getAttackTypeName = resolve_name attackTypeMap"

definition getImpactName :: "int \<Rightarrow> fetch_outcome \<Rightarrow> service_state \<Rightarrow> int \<Rightarrow> (js_error + string) \<times> service_state \<times> nat" where
  "getImpactName = resolve_name impactMap"

definition getStatusName :: "int \<Rightarrow> fetch_outcome \<Rightarrow> service_state \<Rightarrow> int \<Rightarrow> (js_error + string) \<times> service_state \<times> nat" where
  "getStatusName = resolve_name statusMap"

section \<open>Report and filter translation (ReportTransformer)\<close>

text \<open>
  An optional property (\<open>query?: string\<close>) and a nullable one (\<open>string | null\<close>) are
  both an \<open>option\<close>: a property holding \<open>undefined\<close> and a missing property are not
  told apart.
\<close>

record ReportWithDetails =
  rep_id :: int
  rep_user_id :: "int option"
  rep_is_anonymous :: bool
  rep_attack_type :: int
  rep_incident_date :: string
  rep_evidence_url :: "string option"
  rep_attack_origin :: "string option"
  rep_sos_cont :: "string option"
  rep_description :: "string option"
  rep_impact :: int
  rep_status :: int
  rep_admin_note :: "string option"
  rep_created_at :: string
  rep_updated_at :: string
  rep_attack_type_name :: string
  rep_impact_name :: string
  rep_status_name :: string
  rep_user_email :: "string option"
  rep_user_name :: "string option"

record LegacyReport =
  leg_id :: int
  leg_user_id :: "int option"
  leg_attack_type :: string
  leg_incident_date :: string
  leg_impact_level :: string
  leg_description :: string
  leg_attack_origin :: string
  leg_device_info :: "string option"
  leg_is_anonymous :: bool
  leg_status :: string
  leg_admin_notes :: "string option"
  leg_evidence_urls :: "string list"
  leg_created_at :: string
  leg_updated_at :: string

text \<open>\<open>s || ''\<close> on a nullable string.\<close>

definition str_or_empty :: "string option \<Rightarrow> string" where
  "str_or_empty s = (case s of None \<Rightarrow> [] | Some v \<Rightarrow> v)"

text \<open>
  \<open>toLegacyReport\<close> reads the names that arrive with the report; it does not consult
  the transformer's catalog.
\<close>

definition toLegacyReport :: "CatalogData \<Rightarrow> ReportWithDetails \<Rightarrow> LegacyReport" where
  "toLegacyReport catalogData report =
     \<lparr>leg_id = rep_id report,
      leg_user_id = rep_user_id report,
      leg_attack_type = rep_attack_type_name report,
      leg_incident_date = rep_incident_date report,
      leg_impact_level = rep_impact_name report,
      leg_description = str_or_empty (rep_description report),
      leg_attack_origin = str_or_empty (rep_attack_origin report),
      leg_device_info = None,
      leg_is_anonymous = rep_is_anonymous report,
      leg_status = rep_status_name report,
      leg_admin_notes = rep_admin_note report,
      leg_evidence_urls =
        (case rep_evidence_url report of
           None \<Rightarrow> []
         | Some u \<Rightarrow> if u = [] then [] else [u]),
      leg_created_at = rep_created_at report,
      leg_updated_at = rep_updated_at report\<rparr>"

record NormalizedSearchFilters =
  nf_query :: "string option"
  nf_status :: "int option"
  nf_attack_type :: "int option"
  nf_impact :: "int option"
  nf_is_anonymous :: "bool option"
  nf_date_from :: "string option"
  nf_date_to :: "string option"
  nf_page :: "int option"
  nf_limit :: "int option"

record SearchFilters =
  sf_query :: "string option"
  sf_status :: "string option"
  sf_attackType :: "string option"
  sf_impactLevel :: "string option"
  sf_isAnonymous :: "bool option"
  sf_dateFrom :: "string option"
  sf_dateTo :: "string option"
  sf_location :: "string option"

text \<open>
  \<open>if (legacy.x) { const e = catalog.find(c => c.name === legacy.x); if (e) n.x = e.id }\<close>:
  the empty string is falsy, so it is never looked up.
\<close>

definition id_of_name :: "catalog_item list \<Rightarrow> string option \<Rightarrow> int option" where
  "id_of_name catalog v =
     (case v of
        None \<Rightarrow> None
      | Some n \<Rightarrow>
          if n = [] then None
          else map_option item_id (find (\<lambda>c. item_name c = n) catalog))"

text \<open>The same from ids to names: the id 0 is falsy, so it is never looked up.\<close>

definition name_of_id :: "catalog_item list \<Rightarrow> int option \<Rightarrow> string option" where
  "name_of_id catalog v =
     (case v of
        None \<Rightarrow> None
      | Some i \<Rightarrow>
          if i = 0 then None
          else map_option item_name (find (\<lambda>c. item_id c = i) catalog))"

definition fromLegacyFilters :: "CatalogData \<Rightarrow> SearchFilters \<Rightarrow> NormalizedSearchFilters" where
  "fromLegacyFilters catalogData legacyFilters =
     \<lparr>nf_query = sf_query legacyFilters,
      nf_status = id_of_name (statuses catalogData) (sf_status legacyFilters),
      nf_attack_type = id_of_name (attackTypes catalogData) (sf_attackType legacyFilters),
      nf_impact = id_of_name (impacts catalogData) (sf_impactLevel legacyFilters),
      nf_is_anonymous = sf_isAnonymous legacyFilters,
      nf_date_from = sf_dateFrom legacyFilters,
      nf_date_to = sf_dateTo legacyFilters,
      nf_page = None,
      nf_limit = None\<rparr>"

definition toLegacyFilters :: "CatalogData \<Rightarrow> NormalizedSearchFilters \<Rightarrow> SearchFilters" where
  "toLegacyFilters catalogData normalizedFilters =
     \<lparr>sf_query = nf_query normalizedFilters,
      sf_status = name_of_id (statuses catalogData) (nf_status normalizedFilters),
      sf_attackType = name_of_id (attackTypes catalogData) (nf_attack_type normalizedFilters),
      sf_impactLevel = name_of_id (impacts catalogData) (nf_impact normalizedFilters),
      sf_isAnonymous = nf_is_anonymous normalizedFilters,
      sf_dateFrom = nf_date_from normalizedFilters,
      sf_dateTo = nf_date_to normalizedFilters,
      sf_location = None\<rparr>"

text \<open>
  The normalized report without its derived fields, in the words of the specification:
  the three joined names and the joined user fields are derived from the ids.
\<close>

definition stripDerivedFields :: "ReportWithDetails \<Rightarrow> ReportWithDetails" where
  "stripDerivedFields r =
     r\<lparr>rep_attack_type_name := [], rep_impact_name := [], rep_status_name := [],
       rep_user_email := None, rep_user_name := None\<rparr>"

section \<open>Anonymous authentication guard (AnonymousAuthGuard)\<close>

record profile =
  prof_id :: int
  prof_email :: string
  prof_name :: string

record AccessPayload =
  sub :: string
  type :: string
  payload_profile :: profile

record user =
  userId :: string
  user_profile :: profile
  raw :: AccessPayload

text \<open>The request, as far as the guard touches it: one header and the \<open>user\<close> property.\<close>

record request =
  authorization :: "string option"
  req_user :: "user option"

text \<open>\<open>s.split(c)\<close> for a one-character separator: never empty, \<open>"".split(" ")\<close> is \<open>[""]\<close>.\<close>

fun js_split :: "char \<Rightarrow> string \<Rightarrow> string list" where
  "js_split c [] = [[]]"
| "js_split c (x # xs) =
     (if x = c then [] # js_split c xs
      else (case js_split c xs of [] \<Rightarrow> [[x]] | w # ws \<Rightarrow> (x # w) # ws))"

text \<open>
  The profile attached to a request without a valid token. The accented letter of its
  display name is two bytes in UTF-8 (195 and 179).
\<close>

definition anonymous_profile :: profile where
  "anonymous_profile =
     \<lparr>prof_id = 0, prof_email = ''anonymous@safetrade.com'',
      prof_name = ''Usuario An'' @ [CHR 0xC3, CHR 0xB3] @ ''nimo''\<rparr>"

definition anonymous_user :: user where
  "anonymous_user =
     \<lparr>userId = ''anonymous'', user_profile = anonymous_profile,
      raw = \<lparr>sub = ''anonymous'', type = ''access'', payload_profile = anonymous_profile\<rparr>\<rparr>"

text \<open>
  \<open>canActivate\<close>, with \<open>jwtService.verifyAsync\<close> (and the reading of the secret, inside
  the same \<open>try\<close>) as the function \<open>verifyAsync\<close>: \<open>None\<close> when it throws. The result is
  the returned boolean and the request afterwards. The destructuring
  \<open>[scheme, token] = auth.split(" ")\<close> takes the first two parts; a missing second part is
  \<open>undefined\<close>, which \<open>!token\<close> treats as it does the empty string, so both are \<open>[]\<close>.
\<close>

definition canActivate :: "(string \<Rightarrow> AccessPayload option) \<Rightarrow> request \<Rightarrow> bool \<times> request" where
  "canActivate verifyAsync req =
     (let auth = (case authorization req of None \<Rightarrow> [] | Some a \<Rightarrow> a);
          parts = js_split CHR '' '' auth;
          scheme = (case parts of [] \<Rightarrow> None | s # _ \<Rightarrow> Some s);
          token = (case parts of _ # t # _ \<Rightarrow> t | _ \<Rightarrow> [])
      in if scheme \<noteq> Some ''Bearer'' \<or> token = []
         then (True, req\<lparr>req_user := Some anonymous_user\<rparr>)
         else (case verifyAsync token of
                 Some payload \<Rightarrow>
                   (if type payload = ''access''
                    then (True, req\<lparr>req_user :=
                            Some \<lparr>userId = sub payload, user_profile = payload_profile payload,
                                  raw = payload\<rparr>\<rparr>)
                    else (True, req))
               | None \<Rightarrow> (True, req\<lparr>req_user := Some anonymous_user\<rparr>)))"

section \<open>Report list of the mobile client (ReportsListViewModel)\<close>

datatype ReportFilter = todos | misReportes | nuevo | revisado | enInvestigacion | cerrado

fun rawValue :: "ReportFilter \<Rightarrow> string" where
  "rawValue todos = ''todos''"
| "rawValue misReportes = ''mis_reportes''"
| "rawValue nuevo = ''nuevo''"
| "rawValue revisado = ''revisado''"
| "rawValue enInvestigacion = ''en_investigacion''"
| "rawValue cerrado = ''cerrado''"

text \<open>
  The fields of the client's \<open>Report\<close> that \<open>applyFilters\<close> reads. \<open>createdAt\<close> is a
  \<open>Date\<close>, a point in time: a number of seconds, compared as numbers are.
\<close>

record Report =
  report_id :: int
  attackType :: string
  attackOrigin :: "string option"
  description :: "string option"
  status :: string
  createdAt :: rat

record ReportsListViewModel =
  allReports :: "Report list"
  userReports :: "Report list"
  filteredReports :: "Report list"
  selectedFilter :: ReportFilter
  searchQuery :: string

text \<open>\<open>lowercased()\<close> on the letters A to Z; other bytes are left as they are.\<close>

definition lower_char :: "char \<Rightarrow> char" where
  "lower_char c =
     (if 65 \<le> (of_char c :: nat) \<and> (of_char c :: nat) \<le> 90
      then char_of ((of_char c :: nat) + 32) else c)"

definition lowercased :: "string \<Rightarrow> string" where
  "lowercased s = map lower_char s"

text \<open>The members of \<open>.whitespacesAndNewlines\<close> among the one-byte characters.\<close>

definition is_whitespace :: "char \<Rightarrow> bool" where
  "is_whitespace c = ((of_char c :: nat) = 32 \<or> (9 \<le> (of_char c :: nat) \<and> (of_char c :: nat) \<le> 13))"

text \<open>\<open>s.trimmingCharacters(in: .whitespacesAndNewlines).isEmpty\<close>\<close>

definition is_blank :: "string \<Rightarrow> bool" where
  "is_blank s = list_all is_whitespace s"

fun starts_with :: "string \<Rightarrow> string \<Rightarrow> bool" where
  "starts_with s [] = True"
| "starts_with [] (q # qs) = False"
| "starts_with (c # cs) (q # qs) = (c = q \<and> starts_with cs qs)"

text \<open>
  \<open>s.contains(q)\<close>: \<open>q\<close> occurs in \<open>s\<close>. \<open>applyFilters\<close> only asks it for a query that is
  not blank, hence not empty.
\<close>

fun contains :: "string \<Rightarrow> string \<Rightarrow> bool" where
  "contains [] q = (q = [])"
| "contains (c # cs) q = (starts_with (c # cs) q \<or> contains cs q)"

text \<open>
  \<open>xs.sorted(by: before)\<close> as a stable insertion sort: an element moves behind exactly
  those that come strictly before it in the order.
\<close>

fun insert_by :: "('a \<Rightarrow> 'a \<Rightarrow> bool) \<Rightarrow> 'a \<Rightarrow> 'a list \<Rightarrow> 'a list" where
  "insert_by before x [] = [x]"
| "insert_by before x (y # ys) =
     (if before y x then y # insert_by before x ys else x # y # ys)"

definition sorted_by :: "('a \<Rightarrow> 'a \<Rightarrow> bool) \<Rightarrow> 'a list \<Rightarrow> 'a list" where
  "sorted_by before xs = foldr (insert_by before) xs []"

text \<open>
  \<open>applyFilters\<close>. \<open>getAttackTypeDisplayName\<close> belongs to the \<open>Report\<close> model, which is
  not among the sources: it is a parameter.
\<close>

definition matches_query :: "(Report \<Rightarrow> string) \<Rightarrow> string \<Rightarrow> Report \<Rightarrow> bool" where
  "matches_query getAttackTypeDisplayName query report =
     (contains (lowercased (getAttackTypeDisplayName report)) query
      \<or> (case attackOrigin report of None \<Rightarrow> False | Some s \<Rightarrow> contains (lowercased s) query)
      \<or> (case description report of None \<Rightarrow> False | Some s \<Rightarrow> contains (lowercased s) query))"

definition applyFilters :: "(Report \<Rightarrow> string) \<Rightarrow> ReportsListViewModel \<Rightarrow> ReportsListViewModel" where
  "applyFilters getAttackTypeDisplayName vm =
     (let base =
            (case selectedFilter vm of
               todos \<Rightarrow> allReports vm
             | misReportes \<Rightarrow> userReports vm
             | _ \<Rightarrow> filter (\<lambda>r. status r = rawValue (selectedFilter vm)) (allReports vm));
          searched =
            (if \<not> is_blank (searchQuery vm)
             then filter (matches_query getAttackTypeDisplayName (lowercased (searchQuery vm))) base
             else base);
          reports = sorted_by (\<lambda>a b. createdAt a > createdAt b) searched
      in vm\<lparr>filteredReports := reports\<rparr>)"

section \<open>Trend aggregator\<close>

text \<open>
  Modelled from the spec: the trend aggregator (\<open>ComunidadService.getTendencias\<close>, which
  the controller calls) is not among the sources. The specification gives its algorithm:
  group the reports of the window by attack type, count each group, divide by the number
  of reports in the window and round to a fixed number of decimals (one, in its example);
  the same for impact. An empty window gives zeroed distributions, the division by zero
  being replaced by 0. The main threat is the name of the attack type with the highest
  count, the lowest catalog id winning a tie.
\<close>

record report_row =
  row_id :: int
  row_attackType :: int
  row_impact :: int
  row_status :: int
  row_isAnonymous :: bool
  row_createdAt :: rat

datatype period = days7 | days30 | days90

record distribution_entry =
  entry_id :: int
  entry_name :: string
  entry_count :: nat
  entry_percentage :: rat

record TrendSummary =
  ts_period :: period
  attackTypeDistribution :: "distribution_entry list"
  impactDistribution :: "distribution_entry list"
  mainThreat :: "string option"

text \<open>
  Modelled from the spec: rounding to a fixed precision of \<open>d\<close> decimals, halves upwards
  (as \<open>Math.round\<close> does).
\<close>

definition round_to :: "nat \<Rightarrow> rat \<Rightarrow> rat" where
  "round_to d x = of_int \<lfloor>x * 10 ^ d + 1 / 2\<rfloor> / 10 ^ d"

text \<open>
  Modelled from the spec: the percentage of a group of \<open>c\<close> reports among \<open>n\<close>, 0 for
  an empty window.
\<close>

definition percentage_of :: "nat \<Rightarrow> nat \<Rightarrow> nat \<Rightarrow> rat" where
  "percentage_of d c n =
     (if n = 0 then 0 else round_to d (of_nat c * 100 / of_nat n))"

text \<open>
  Modelled from the spec: the distribution of the reports' catalog references \<open>keys\<close>,
  one entry for each catalog row, in ascending order of id.
\<close>

definition distribution :: "nat \<Rightarrow> catalog_item list \<Rightarrow> int list \<Rightarrow> distribution_entry list" where
  "distribution d catalog keys =
     map (\<lambda>c. \<lparr>entry_id = item_id c, entry_name = item_name c,
                entry_count = count_list keys (item_id c),
                entry_percentage = percentage_of d (count_list keys (item_id c)) (length keys)\<rparr>)
         (sort_key item_id catalog)"

text \<open>
  Modelled from the spec: the first entry among those of the highest count (none for an
  empty distribution): an entry yields only to a later one of a strictly higher count.
\<close>

fun first_max :: "distribution_entry list \<Rightarrow> distribution_entry option" where
  "first_max [] = None"
| "first_max (e # es) =
     (case first_max es of
        None \<Rightarrow> Some e
      | Some m \<Rightarrow> if entry_count e < entry_count m then Some m else Some e)"

text \<open>
  Modelled from the spec: \<open>getTrends\<close> for the reports of the window, which its caller
  has selected.
\<close>

definition getTrends :: "nat \<Rightarrow> CatalogData \<Rightarrow> period \<Rightarrow> report_row list \<Rightarrow> TrendSummary" where
  "getTrends d catalogs p reports =
     (let attack = distribution d (attackTypes catalogs) (map row_attackType reports)
      in \<lparr>ts_period = p,
          attackTypeDistribution = attack,
          impactDistribution = distribution d (impacts catalogs) (map row_impact reports),
          mainThreat = map_option entry_name (first_max attack)\<rparr>)"

section \<open>Theorems\<close>

subsection \<open>Double arithmetic\<close>











lemma js_gt_or_zero: "0 \<le> c \<Longrightarrow> js_gt (js_or_zero x) (Num c) = js_gt x (Num c)"
  by (cases x) (auto simp: js_or_zero_def)

lemma top_gt_first:
  "0 \<le> c \<Longrightarrow> js_gt (topAttackPercentage t) (Num c) = js_gt (first_percentage t) (Num c)"
  by (auto simp: topAttackPercentage_def first_percentage_def js_gt_or_zero
           split: option.splits list.splits)

subsection \<open>Alert-level classifier\<close>




text \<open>
  C2, as amended. With \<open>total_reports = 0\<close> and \<open>highest_impact_count = 0\<close> the
  classifier does not raise. There is no special case for the empty total: the
  high-impact percentage is \<open>0 / 0 * 100\<close>, which is NaN and fails both comparisons, so
  the level is decided by the top attack percentage alone: red above 60, yellow above 40,
  green otherwise.
\<close>

theorem determineAlertLevel_zero_total:
  assumes "community_overview a = Some ov"
      and "total_reports ov = Num 0" and "highest_impact_count ov = Num 0"
  shows "js_mul (js_div (highest_impact_count ov) (total_reports ov)) (Num 100) = NaN
         \<and> determineAlertLevel t a =
             Inr (if js_gt (first_percentage t) (Num 60) then Rojo
                  else if js_gt (first_percentage t) (Num 40) then Amarillo
                  else Verde)"
  using assms
  by (simp add: determineAlertLevel_def Let_def top_gt_first js_div_def js_mul_def)

theorem determineAlertLevel_zero_total_witness:
  "determineAlertLevel
      \<lparr>attack_trends = Some [], summary = \<lparr>main_threat = []\<rparr>\<rparr>
      \<lparr>community_overview = Some \<lparr>total_reports = Num 0, highest_impact_count = Num 0\<rparr>\<rparr>
     = Inr Verde"
  using determineAlertLevel_zero_total
    [of "\<lparr>community_overview = Some \<lparr>total_reports = Num 0, highest_impact_count = Num 0\<rparr>\<rparr>"
        "\<lparr>total_reports = Num 0, highest_impact_count = Num 0\<rparr>"
        "\<lparr>attack_trends = Some [], summary = \<lparr>main_threat = []\<rparr>\<rparr>"]
  by (simp add: first_percentage_def)

text \<open>
  The claim as stated fails: with no reports at all and a first trend entry of 70 percent
  the classifier returns red, where a special case for the empty total would return
  green.
\<close>

theorem determineAlertLevel_zero_total_counterexample:
  "determineAlertLevel
      \<lparr>attack_trends = Some [\<lparr>percentage = Num 70\<rparr>], summary = \<lparr>main_threat = ''email''\<rparr>\<rparr>
      \<lparr>community_overview = Some \<lparr>total_reports = Num 0, highest_impact_count = Num 0\<rparr>\<rparr>
     = Inr Rojo"
  by (simp add: determineAlertLevel_def topAttackPercentage_def js_or_zero_def
        js_div_def js_mul_def)

subsection \<open>Catalog cache\<close>

lemma fetchCatalogs_ok:
  "parse_catalogs net = Some c \<Longrightarrow>
   fetchCatalogs now net st =
     (c, st\<lparr>catalogCache := Some c, catalogMaps := Some (createLookupMaps c),
            lastCacheTime := now\<rparr>, 1)"
  by (simp add: fetchCatalogs_def)

lemma fetchCatalogs_requests: "snd (snd (fetchCatalogs now net st)) = 1"
  by (simp add: fetchCatalogs_def split: option.splits)

text \<open>
  C8. The time to live is five minutes (300000 ms). Let a call of \<open>getCatalogs\<close> at time
  \<open>start\<close> fetch (no cache yet, or an expired one) and the fetch succeed with catalogs
  \<open>c\<close>. Then that call makes one request; a later call at a time \<open>t\<close> with
  \<open>t - start\<close> strictly below the time to live returns the same catalogs \<open>c\<close>, makes no
  request and leaves the service as it is; a call at a time \<open>t\<close> with the time to live
  elapsed makes exactly one request.
\<close>

theorem catalog_cache_ttl:
  assumes ok: "parse_catalogs reply = Some c"
      and miss: "catalogCache st = None \<or> \<not> isCacheValid st start"
      and after: "after = fst (snd (getCatalogs start reply st))"
  shows "CACHE_TIMEOUT = 300000
         \<and> getCatalogs start reply st = (c, after, 1)
         \<and> (t - start < CACHE_TIMEOUT \<longrightarrow> getCatalogs t net after = (c, after, 0))
         \<and> (CACHE_TIMEOUT \<le> t - start \<longrightarrow> snd (snd (getCatalogs t net after)) = 1)"
proof -
  have first: "getCatalogs start reply st = fetchCatalogs start reply st"
    using miss by (auto simp: getCatalogs_def split: option.splits)
  have after': "after = st\<lparr>catalogCache := Some c, catalogMaps := Some (createLookupMaps c),
                            lastCacheTime := start\<rparr>"
    using after first fetchCatalogs_ok [OF ok] by simp
  have a: "getCatalogs start reply st = (c, after, 1)"
    using first fetchCatalogs_ok [OF ok] after' by simp
  have b: "t - start < CACHE_TIMEOUT \<Longrightarrow> getCatalogs t net after = (c, after, 0)"
    by (simp add: getCatalogs_def isCacheValid_def after')
  have c: "CACHE_TIMEOUT \<le> t - start \<Longrightarrow> snd (snd (getCatalogs t net after)) = 1"
    by (simp add: getCatalogs_def isCacheValid_def after' fetchCatalogs_requests)
  show ?thesis using a b c by (simp add: CACHE_TIMEOUT_def)
qed

theorem catalog_cache_ttl_witness:
  "getCatalogs 1000
      (Response \<lparr>resp_data = Some \<lparr>p_attackTypes = Some [\<lparr>item_id = 1, item_name = ''email''\<rparr>],
                                   p_impacts = Some [], p_statuses = Some []\<rparr>,
                 resp_top = \<lparr>p_attackTypes = None, p_impacts = None, p_statuses = None\<rparr>\<rparr>)
      initial_service_state
     = (\<lparr>attackTypes = [\<lparr>item_id = 1, item_name = ''email''\<rparr>], impacts = [], statuses = []\<rparr>,
        \<lparr>catalogCache = Some \<lparr>attackTypes = [\<lparr>item_id = 1, item_name = ''email''\<rparr>],
                              impacts = [], statuses = []\<rparr>,
         catalogMaps = Some (createLookupMaps
                              \<lparr>attackTypes = [\<lparr>item_id = 1, item_name = ''email''\<rparr>],
                               impacts = [], statuses = []\<rparr>),
         lastCacheTime = 1000\<rparr>, 1)
   \<and> getCatalogs 300999 RequestFailed
        \<lparr>catalogCache = Some \<lparr>attackTypes = [\<lparr>item_id = 1, item_name = ''email''\<rparr>],
                              impacts = [], statuses = []\<rparr>,
         catalogMaps = Some (createLookupMaps
                              \<lparr>attackTypes = [\<lparr>item_id = 1, item_name = ''email''\<rparr>],
                               impacts = [], statuses = []\<rparr>),
         lastCacheTime = 1000\<rparr>
     = (\<lparr>attackTypes = [\<lparr>item_id = 1, item_name = ''email''\<rparr>], impacts = [], statuses = []\<rparr>,
        \<lparr>catalogCache = Some \<lparr>attackTypes = [\<lparr>item_id = 1, item_name = ''email''\<rparr>],
                              impacts = [], statuses = []\<rparr>,
         catalogMaps = Some (createLookupMaps
                              \<lparr>attackTypes = [\<lparr>item_id = 1, item_name = ''email''\<rparr>],
                               impacts = [], statuses = []\<rparr>),
         lastCacheTime = 1000\<rparr>, 0)
   \<and> snd (snd (getCatalogs 301000 RequestFailed
        \<lparr>catalogCache = Some \<lparr>attackTypes = [\<lparr>item_id = 1, item_name = ''email''\<rparr>],
                              impacts = [], statuses = []\<rparr>,
         catalogMaps = Some (createLookupMaps
                              \<lparr>attackTypes = [\<lparr>item_id = 1, item_name = ''email''\<rparr>],
                               impacts = [], statuses = []\<rparr>),
         lastCacheTime = 1000\<rparr>)) = 1"
proof -
  let ?reply = "Response \<lparr>resp_data = Some \<lparr>p_attackTypes = Some [\<lparr>item_id = 1, item_name = ''email''\<rparr>],
                                   p_impacts = Some [], p_statuses = Some []\<rparr>,
                 resp_top = \<lparr>p_attackTypes = None, p_impacts = None, p_statuses = None\<rparr>\<rparr>"
  let ?c = "\<lparr>attackTypes = [\<lparr>item_id = 1, item_name = ''email''\<rparr>], impacts = [], statuses = []\<rparr>"
  let ?after = "\<lparr>catalogCache = Some ?c, catalogMaps = Some (createLookupMaps ?c),
                 lastCacheTime = 1000\<rparr>"
  have ok: "parse_catalogs ?reply = Some ?c"
    by (simp add: parse_catalogs_def select_payload_def)
  have miss: "catalogCache initial_service_state = None \<or> \<not> isCacheValid initial_service_state 1000"
    by (simp add: initial_service_state_def)
  have after: "?after = fst (snd (getCatalogs 1000 ?reply initial_service_state))"
    by (simp add: getCatalogs_def fetchCatalogs_def ok initial_service_state_def)
  show ?thesis
    using catalog_cache_ttl [OF ok miss after, of 300999 RequestFailed]
          catalog_cache_ttl [OF ok miss after, of 301000 RequestFailed]
    by simp
qed

subsection \<open>Catalog name resolution\<close>

text \<open>
  C7, at the failing input. On a service that has not yet loaded the catalogs, with the
  request for the live catalog failing, \<open>getCatalogs\<close> does fall back to the default
  catalogs, but it leaves \<open>catalogMaps\<close> unset, and the name resolution that follows
  raises a TypeError instead of returning a name or "Desconocido".
\<close>

theorem getAttackTypeName_fetch_fails:
  "fst (getCatalogs now RequestFailed initial_service_state) = createDefaultCatalogs
   \<and> getAttackTypeName now RequestFailed initial_service_state i
       = (Inl TypeError, initial_service_state, 1)"
  by (simp add: getAttackTypeName_def resolve_name_def getCatalogMaps_def getCatalogs_def
       fetchCatalogs_def parse_catalogs_def initial_service_state_def)

text \<open>
  C6, as amended. With the lookup maps loaded, \<open>getAttackTypeName\<close>, \<open>getImpactName\<close>
  and \<open>getStatusName\<close> return "Desconocido" for an id that is not a key of their map,
  without a request and without raising. \<open>toLegacyReport\<close> never raises and substitutes
  nothing: the three legacy names are the names that came with the report, whatever its
  ids are.
\<close>

theorem unknown_id_fallback:
  assumes "catalogMaps st = Some maps"
  shows "(attackTypeMap maps i = None \<longrightarrow>
            getAttackTypeName now net st i = (Inr ''Desconocido'', st, 0))
       \<and> (impactMap maps i = None \<longrightarrow>
            getImpactName now net st i = (Inr ''Desconocido'', st, 0))
       \<and> (statusMap maps i = None \<longrightarrow>
            getStatusName now net st i = (Inr ''Desconocido'', st, 0))
       \<and> leg_attack_type (toLegacyReport c r) = rep_attack_type_name r
       \<and> leg_impact_level (toLegacyReport c r) = rep_impact_name r
       \<and> leg_status (toLegacyReport c r) = rep_status_name r"
  using assms
  by (simp add: getAttackTypeName_def getImpactName_def getStatusName_def resolve_name_def
        getCatalogMaps_def name_or_unknown_def toLegacyReport_def)

theorem unknown_id_fallback_witness:
  "getAttackTypeName 0 RequestFailed
      \<lparr>catalogCache = Some createDefaultCatalogs,
       catalogMaps = Some (createLookupMaps createDefaultCatalogs), lastCacheTime = 0\<rparr> 99
     = (Inr ''Desconocido'',
        \<lparr>catalogCache = Some createDefaultCatalogs,
         catalogMaps = Some (createLookupMaps createDefaultCatalogs), lastCacheTime = 0\<rparr>, 0)
   \<and> getImpactName 0 RequestFailed
      \<lparr>catalogCache = Some createDefaultCatalogs,
       catalogMaps = Some (createLookupMaps createDefaultCatalogs), lastCacheTime = 0\<rparr> 99
     = (Inr ''Desconocido'',
        \<lparr>catalogCache = Some createDefaultCatalogs,
         catalogMaps = Some (createLookupMaps createDefaultCatalogs), lastCacheTime = 0\<rparr>, 0)
   \<and> getStatusName 0 RequestFailed
      \<lparr>catalogCache = Some createDefaultCatalogs,
       catalogMaps = Some (createLookupMaps createDefaultCatalogs), lastCacheTime = 0\<rparr> 99
     = (Inr ''Desconocido'',
        \<lparr>catalogCache = Some createDefaultCatalogs,
         catalogMaps = Some (createLookupMaps createDefaultCatalogs), lastCacheTime = 0\<rparr>, 0)"
proof -
  let ?st = "\<lparr>catalogCache = Some createDefaultCatalogs,
              catalogMaps = Some (createLookupMaps createDefaultCatalogs), lastCacheTime = 0\<rparr>"
  have maps: "catalogMaps ?st = Some (createLookupMaps createDefaultCatalogs)"
    by simp
  have absent: "attackTypeMap (createLookupMaps createDefaultCatalogs) 99 = None"
               "impactMap (createLookupMaps createDefaultCatalogs) 99 = None"
               "statusMap (createLookupMaps createDefaultCatalogs) 99 = None"
    by (simp_all add: createLookupMaps_def createDefaultCatalogs_def lookup_map_def)
  show ?thesis
    using unknown_id_fallback [OF maps, of 99 0 RequestFailed] absent by simp
qed

text \<open>
  The claim as stated fails for \<open>toLegacyReport\<close>: the attack type 99 is in no catalog,
  and the legacy report carries the name that came with the report, not "Desconocido".
\<close>

theorem unknown_id_fallback_counterexample:
  "attackTypeMap (createLookupMaps createDefaultCatalogs) 99 = None
   \<and> leg_attack_type (toLegacyReport createDefaultCatalogs
        \<lparr>rep_id = 7, rep_user_id = None, rep_is_anonymous = True, rep_attack_type = 99,
         rep_incident_date = ''2025-01-01'', rep_evidence_url = None, rep_attack_origin = None,
         rep_sos_cont = None, rep_description = None, rep_impact = 1, rep_status = 1,
         rep_admin_note = None, rep_created_at = ''2025-01-01'', rep_updated_at = ''2025-01-01'',
         rep_attack_type_name = ''phishing'', rep_impact_name = ''ninguno'',
         rep_status_name = ''nuevo'', rep_user_email = None, rep_user_name = None\<rparr>)
     \<noteq> ''Desconocido''"
  by (simp add: createLookupMaps_def createDefaultCatalogs_def lookup_map_def toLegacyReport_def)

subsection \<open>Filter translation\<close>

lemma find_name_of_found:
  "distinct (map item_name xs) \<Longrightarrow> find (\<lambda>c. item_id c = i) xs = Some e \<Longrightarrow>
   find (\<lambda>c. item_name c = item_name e) xs = Some e"
proof (induction xs)
  case Nil
  then show ?case by simp
next
  case (Cons x xs)
  show ?case
  proof (cases "item_id x = i")
    case True
    with Cons.prems show ?thesis by simp
  next
    case False
    with Cons.prems have f: "find (\<lambda>c. item_id c = i) xs = Some e" by simp
    then have "e \<in> set xs" by (auto simp: find_Some_iff)
    with Cons.prems have "item_name x \<noteq> item_name e" by auto
    with Cons f show ?thesis by simp
  qed
qed

lemma id_of_name_of_id:
  assumes "distinct (map item_name xs)" and "\<forall>e\<in>set xs. item_name e \<noteq> []"
      and "\<forall>i. v = Some i \<longrightarrow> i \<noteq> 0 \<and> i \<in> item_id ` set xs"
  shows "id_of_name xs (name_of_id xs v) = v"
proof (cases v)
  case None
  then show ?thesis by (simp add: id_of_name_def name_of_id_def)
next
  case (Some i)
  with assms(3) have nz: "i \<noteq> 0" and "i \<in> item_id ` set xs" by auto
  then obtain e where e: "find (\<lambda>c. item_id c = i) xs = Some e"
    by (cases "find (\<lambda>c. item_id c = i) xs") (auto simp: find_None_iff)
  then have "e \<in> set xs" and ide: "item_id e = i" by (auto simp: find_Some_iff)
  with assms(2) have ne: "item_name e \<noteq> []" by auto
  from find_name_of_found [OF assms(1) e] ne nz e ide Some
  show ?thesis by (simp add: id_of_name_def name_of_id_def)
qed

text \<open>
  C4, as amended. Let the names of each catalog be distinct and not empty, and let each of
  the status, attack type and impact of a normalized filter, where set, be a non-zero id
  of its catalog. Then \<open>toLegacyFilters\<close> followed by \<open>fromLegacyFilters\<close> under the
  same catalogs gives the filter back except for \<open>page\<close> and \<open>limit\<close>, which the legacy
  shape does not carry and which come back unset.
\<close>

theorem filters_round_trip:
  assumes "distinct (map item_name (statuses c))"
      and "distinct (map item_name (attackTypes c))"
      and "distinct (map item_name (impacts c))"
      and "\<forall>e\<in>set (statuses c) \<union> set (attackTypes c) \<union> set (impacts c). item_name e \<noteq> []"
      and "\<forall>i. nf_status x = Some i \<longrightarrow> i \<noteq> 0 \<and> i \<in> item_id ` set (statuses c)"
      and "\<forall>i. nf_attack_type x = Some i \<longrightarrow> i \<noteq> 0 \<and> i \<in> item_id ` set (attackTypes c)"
      and "\<forall>i. nf_impact x = Some i \<longrightarrow> i \<noteq> 0 \<and> i \<in> item_id ` set (impacts c)"
  shows "fromLegacyFilters c (toLegacyFilters c x) = x\<lparr>nf_page := None, nf_limit := None\<rparr>"
proof -
  have s: "id_of_name (statuses c) (name_of_id (statuses c) (nf_status x)) = nf_status x"
    using assms by (intro id_of_name_of_id) auto
  have a: "id_of_name (attackTypes c) (name_of_id (attackTypes c) (nf_attack_type x))
             = nf_attack_type x"
    using assms by (intro id_of_name_of_id) auto
  have i: "id_of_name (impacts c) (name_of_id (impacts c) (nf_impact x)) = nf_impact x"
    using assms by (intro id_of_name_of_id) auto
  show ?thesis
    by (simp add: fromLegacyFilters_def toLegacyFilters_def s a i)
qed

theorem filters_round_trip_witness:
  "fromLegacyFilters createDefaultCatalogs (toLegacyFilters createDefaultCatalogs
     \<lparr>nf_query = Some ''banco'', nf_status = Some 1, nf_attack_type = Some 2,
      nf_impact = Some 3, nf_is_anonymous = None, nf_date_from = None, nf_date_to = None,
      nf_page = Some 2, nf_limit = Some 10\<rparr>)
   = \<lparr>nf_query = Some ''banco'', nf_status = Some 1, nf_attack_type = Some 2,
      nf_impact = Some 3, nf_is_anonymous = None, nf_date_from = None, nf_date_to = None,
      nf_page = None, nf_limit = None\<rparr>"
  using filters_round_trip [of createDefaultCatalogs
     "\<lparr>nf_query = Some ''banco'', nf_status = Some 1, nf_attack_type = Some 2,
       nf_impact = Some 3, nf_is_anonymous = None, nf_date_from = None, nf_date_to = None,
       nf_page = Some 2, nf_limit = Some 10\<rparr>"]
  by (simp add: createDefaultCatalogs_def)

text \<open>
  The claim as stated fails: a filter on the second page, all of whose ids are in the
  default catalogs, does not come back as it was.
\<close>

theorem filters_round_trip_counterexample:
  "fromLegacyFilters createDefaultCatalogs (toLegacyFilters createDefaultCatalogs
     \<lparr>nf_query = Some ''banco'', nf_status = Some 1, nf_attack_type = Some 2,
      nf_impact = Some 3, nf_is_anonymous = None, nf_date_from = None, nf_date_to = None,
      nf_page = Some 2, nf_limit = Some 10\<rparr>)
   \<noteq> \<lparr>nf_query = Some ''banco'', nf_status = Some 1, nf_attack_type = Some 2,
      nf_impact = Some 3, nf_is_anonymous = None, nf_date_from = None, nf_date_to = None,
      nf_page = Some 2, nf_limit = Some 10\<rparr>"
  by (simp add: fromLegacyFilters_def toLegacyFilters_def)

text \<open>
  The report half of the claim has no counterpart in the code: there is no translation
  from the legacy report back, and none can exist, because \<open>toLegacyReport\<close> forgets
  \<open>sos_cont\<close>, which is not a derived field.
\<close>

lemma toLegacyReport_forgets_sos_cont:
  "toLegacyReport c (r\<lparr>rep_sos_cont := s\<rparr>) = toLegacyReport c r"
  by (simp add: toLegacyReport_def)

lemma toLegacyReport_no_inverse:
  "\<not> (\<exists>undo. \<forall>r. undo (toLegacyReport c r) = stripDerivedFields r)"
proof
  assume "\<exists>undo. \<forall>r. undo (toLegacyReport c r) = stripDerivedFields r"
  then obtain undo where b: "\<And>r. undo (toLegacyReport c r) = stripDerivedFields r"
    by blast
  fix r :: ReportWithDetails
  have "stripDerivedFields (r\<lparr>rep_sos_cont := None\<rparr>) = stripDerivedFields (r\<lparr>rep_sos_cont := Some ''x''\<rparr>)"
    using b [of "r\<lparr>rep_sos_cont := None\<rparr>"] b [of "r\<lparr>rep_sos_cont := Some ''x''\<rparr>"]
    by (simp add: toLegacyReport_forgets_sos_cont)
  then have "rep_sos_cont (stripDerivedFields (r\<lparr>rep_sos_cont := None\<rparr>))
               = rep_sos_cont (stripDerivedFields (r\<lparr>rep_sos_cont := Some ''x''\<rparr>))"
    by (rule arg_cong)
  then show False by (simp add: stripDerivedFields_def)
qed

subsection \<open>Anonymous authentication guard\<close>

lemma canActivate_true: "fst (canActivate verifyAsync req) = True"
  by (simp add: canActivate_def Let_def split: option.splits list.splits)

lemma canActivate_no_header:
  "canActivate verifyAsync (req\<lparr>authorization := None\<rparr>)
     = (True, req\<lparr>authorization := None, req_user := Some anonymous_user\<rparr>)"
  by (simp add: canActivate_def Let_def)

lemma canActivate_user_missing:
  assumes "req_user (snd (canActivate verifyAsync req)) = None"
  shows "req_user req = None \<and> (\<exists>token p. verifyAsync token = Some p \<and> type p \<noteq> ''access'')"
  using assms
  by (auto simp: canActivate_def Let_def split: option.splits list.splits if_splits)

text \<open>
  C9, at the failing input. A request with \<open>Authorization: Bearer tok\<close>, where \<open>tok\<close>
  verifies with a payload whose type is "refresh" and not "access": the guard returns
  true and leaves the request without a user.
\<close>

theorem canActivate_non_access_token:
  "canActivate
      (\<lambda>t. if t = ''tok''
            then Some \<lparr>sub = ''42'', type = ''refresh'',
                       payload_profile = \<lparr>prof_id = 42, prof_email = ''a@b.c'', prof_name = ''Ana''\<rparr>\<rparr>
            else None)
      \<lparr>authorization = Some ''Bearer tok'', req_user = None\<rparr>
   = (True, \<lparr>authorization = Some ''Bearer tok'', req_user = None\<rparr>)"
  by (simp add: canActivate_def Let_def)

theorem canActivate_non_access_token_witness:
  "req_user (snd (canActivate
      (\<lambda>t. if t = ''tok''
            then Some \<lparr>sub = ''42'', type = ''refresh'',
                       payload_profile = \<lparr>prof_id = 42, prof_email = ''a@b.c'', prof_name = ''Ana''\<rparr>\<rparr>
            else None)
      \<lparr>authorization = Some ''Bearer tok'', req_user = None\<rparr>)) = None"
  using canActivate_non_access_token by simp

subsection \<open>Report list of the mobile client\<close>

lemma set_insert_by: "set (insert_by before x xs) = insert x (set xs)"
  by (induction xs) auto

lemma newest_first_insert:
  "sorted_wrt (\<lambda>a b. createdAt b \<le> createdAt a) xs \<Longrightarrow>
   sorted_wrt (\<lambda>a b. createdAt b \<le> createdAt a)
     (insert_by (\<lambda>a b. createdAt a > createdAt b) x xs)"
  by (induction xs) (auto simp: set_insert_by)

lemma newest_first_sorted_by:
  "sorted_wrt (\<lambda>a b. createdAt b \<le> createdAt a)
     (sorted_by (\<lambda>a b. createdAt a > createdAt b) xs)"
  unfolding sorted_by_def by (induction xs) (simp_all add: newest_first_insert)

text \<open>
  C10. After \<open>applyFilters\<close>, whatever the reports, the selected filter and the search
  query are, \<open>filteredReports\<close> is in descending order of \<open>createdAt\<close>: no report comes
  before a newer one.
\<close>

theorem applyFilters_newest_first:
  "sorted_wrt (\<lambda>a b. createdAt b \<le> createdAt a)
     (filteredReports (applyFilters getAttackTypeDisplayName vm))"
  by (simp add: applyFilters_def Let_def newest_first_sorted_by)

subsection \<open>Trend aggregator\<close>

text \<open>
  Rounding to \<open>d\<close> decimals moves a percentage by at most half a unit of the last
  decimal, so the percentages of a distribution sum to 100 up to that much for each
  entry; the distribution of an empty window is all zeros.
\<close>

lemma round_to_error: "\<bar>round_to d x - x\<bar> \<le> 1 / (2 * 10 ^ d)"
proof -
  define p :: rat where "p = 10 ^ d"
  define k where "k = \<lfloor>x * p + 1 / 2\<rfloor>"
  have p: "0 < p" by (simp add: p_def)
  have lo: "of_int k \<le> x * p + 1 / 2" unfolding k_def by (rule of_int_floor_le)
  have hi: "x * p + 1 / 2 < of_int k + 1"
    unfolding k_def using floor_correct [of "x * p + 1 / 2"] by simp
  from lo hi have "\<bar>of_int k - x * p\<bar> \<le> 1 / 2" by linarith
  then have "\<bar>of_int k - x * p\<bar> / p \<le> (1 / 2) / p"
    using p by (intro divide_right_mono) simp_all
  moreover have "round_to d x - x = (of_int k - x * p) / p"
    using p by (simp add: round_to_def k_def p_def field_simps)
  ultimately show ?thesis using p by (simp add: p_def abs_divide)
qed

lemma sum_list_close:
  fixes f g :: "'a \<Rightarrow> rat"
  assumes "\<forall>c\<in>set cs. \<bar>f c - g c\<bar> \<le> eps"
  shows "\<bar>sum_list (map f cs) - sum_list (map g cs)\<bar> \<le> of_nat (length cs) * eps"
  using assms
proof (induction cs)
  case Nil
  then show ?case by simp
next
  case (Cons c cs)
  then have a: "\<bar>f c - g c\<bar> \<le> eps"
    and b: "\<bar>sum_list (map f cs) - sum_list (map g cs)\<bar> \<le> of_nat (length cs) * eps"
    by auto
  have "\<bar>sum_list (map f (c # cs)) - sum_list (map g (c # cs))\<bar>
          \<le> \<bar>f c - g c\<bar> + \<bar>sum_list (map f cs) - sum_list (map g cs)\<bar>"
    by simp
  also have "\<dots> \<le> eps + of_nat (length cs) * eps" using a b by linarith
  finally show ?case by (simp add: algebra_simps)
qed

lemma distinct_ids_sort:
  "distinct (map item_id (sort_key item_id cs)) = distinct (map item_id cs)"
  by (induction cs) (auto simp: distinct_insort_key)

lemma counts_total:
  assumes "distinct (map item_id cs)" and "set keys \<subseteq> item_id ` set cs"
  shows "sum_list (map (\<lambda>c. count_list keys (item_id c)) (sort_key item_id cs)) = length keys"
proof -
  have "sum_list (map (\<lambda>c. count_list keys (item_id c)) (sort_key item_id cs))
          = sum_list (map (count_list keys) (map item_id (sort_key item_id cs)))"
    by (simp add: comp_def)
  also have "\<dots> = sum (count_list keys) (set (map item_id (sort_key item_id cs)))"
    using assms(1) by (intro sum_list_distinct_conv_sum_set) (simp add: distinct_ids_sort)
  also have "\<dots> = sum (count_list keys) (item_id ` set cs)" by simp
  also have "\<dots> = length keys" using assms(2) by (intro sum_count_set) auto
  finally show ?thesis .
qed

lemma shares_sum:
  fixes n :: rat
  shows "sum_list (map (\<lambda>c. of_nat (h c) * 100 / n) xs) = of_nat (sum_list (map h xs)) * 100 / n"
  by (induction xs) (simp_all add: add_divide_distrib distrib_right)

lemma exact_shares:
  assumes "distinct (map item_id cs)" and "set keys \<subseteq> item_id ` set cs" and "keys \<noteq> []"
  shows "sum_list (map (\<lambda>c. of_nat (count_list keys (item_id c)) * 100 / of_nat (length keys))
            (sort_key item_id cs)) = (100::rat)"
  using assms(3) by (simp add: shares_sum counts_total [OF assms(1,2)])

lemma distribution_sum:
  assumes "distinct (map item_id cs)" and "set keys \<subseteq> item_id ` set cs" and "keys \<noteq> []"
  shows "\<bar>sum_list (map entry_percentage (distribution d cs keys)) - 100\<bar>
           \<le> of_nat (length cs) / (2 * 10 ^ d)"
proof -
  let ?g = "\<lambda>c. of_nat (count_list keys (item_id c)) * 100 / of_nat (length keys) :: rat"
  let ?f = "\<lambda>c. round_to d (?g c)"
  have pct: "map entry_percentage (distribution d cs keys) = map ?f (sort_key item_id cs)"
    using assms(3) by (simp add: distribution_def percentage_of_def comp_def)
  have "\<bar>sum_list (map ?f (sort_key item_id cs)) - sum_list (map ?g (sort_key item_id cs))\<bar>
          \<le> of_nat (length (sort_key item_id cs)) * (1 / (2 * 10 ^ d))"
    by (intro sum_list_close) (simp add: round_to_error)
  then show ?thesis
    using exact_shares [OF assms] pct by simp
qed

lemma distribution_empty:
  "e \<in> set (distribution d cs []) \<Longrightarrow> entry_count e = 0 \<and> entry_percentage e = 0"
  by (auto simp: distribution_def percentage_of_def)

lemma distribution_empty_sum: "sum_list (map entry_percentage (distribution d cs [])) = 0"
  by (simp add: distribution_def percentage_of_def comp_def)

lemma first_max_some: "es \<noteq> [] \<Longrightarrow> \<exists>m. first_max es = Some m"
  by (cases es) (auto split: option.splits)

lemma first_max_props:
  assumes "sorted (map entry_id es)" and "first_max es = Some m"
  shows "m \<in> set es \<and> (\<forall>e\<in>set es. entry_count e \<le> entry_count m)
         \<and> (\<forall>e\<in>set es. entry_count e = entry_count m \<longrightarrow> entry_id m \<le> entry_id e)"
  using assms
proof (induction es arbitrary: m)
  case Nil
  then show ?case by simp
next
  case (Cons e es)
  show ?case
  proof (cases "first_max es")
    case None
    then have "es = []" by (cases es) (auto split: option.splits if_splits)
    with Cons.prems show ?thesis by auto
  next
    case (Some k)
    from Cons.prems(1) have srt: "sorted (map entry_id es)"
      and low: "\<forall>x\<in>set es. entry_id e \<le> entry_id x" by auto
    from Cons.IH [OF srt Some]
    have k: "k \<in> set es" "\<forall>x\<in>set es. entry_count x \<le> entry_count k"
      "\<forall>x\<in>set es. entry_count x = entry_count k \<longrightarrow> entry_id k \<le> entry_id x"
      by auto
    show ?thesis
    proof (cases "entry_count e < entry_count k")
      case True
      with Cons.prems(2) Some have "m = k" by simp
      with k True show ?thesis by auto
    next
      case False
      with Cons.prems(2) Some have "m = e" by simp
      with k False low show ?thesis by force
    qed
  qed
qed

text \<open>
  C5. For a window that is not empty, all of whose reports have an attack type of the
  catalog, the main threat is the name of a catalog row whose report count in the window
  is the highest, and among the rows of that count its id is the lowest.
\<close>

theorem mainThreat_highest_count:
  assumes "reports \<noteq> []"
      and "\<forall>r\<in>set reports. row_attackType r \<in> item_id ` set (attackTypes c)"
  shows "\<exists>a\<in>set (attackTypes c).
           mainThreat (getTrends d c p reports) = Some (item_name a)
         \<and> (\<forall>b\<in>set (attackTypes c).
               count_list (map row_attackType reports) (item_id b)
                 \<le> count_list (map row_attackType reports) (item_id a))
         \<and> (\<forall>b\<in>set (attackTypes c).
               count_list (map row_attackType reports) (item_id b)
                 = count_list (map row_attackType reports) (item_id a)
               \<longrightarrow> item_id a \<le> item_id b)"
proof -
  let ?keys = "map row_attackType reports"
  let ?es = "distribution d (attackTypes c) ?keys"
  let ?mk = "\<lambda>c. \<lparr>entry_id = item_id c, entry_name = item_name c,
                entry_count = count_list ?keys (item_id c),
                entry_percentage = percentage_of d (count_list ?keys (item_id c)) (length ?keys)\<rparr>"
  have es: "?es = map ?mk (sort_key item_id (attackTypes c))"
    by (simp add: distribution_def)
  from assms have "attackTypes c \<noteq> []" by (cases reports) auto
  then have "length ?es \<noteq> 0" by (simp add: es)
  then have "?es \<noteq> []" by auto
  then obtain m where m: "first_max ?es = Some m" using first_max_some by blast
  have "map entry_id ?es = map item_id (sort_key item_id (attackTypes c))"
    by (simp add: es comp_def)
  then have "sorted (map entry_id ?es)" by (simp add: sorted_sort_key)
  from first_max_props [OF this m]
  have mem: "m \<in> set ?es" and top: "\<forall>e\<in>set ?es. entry_count e \<le> entry_count m"
    and tie: "\<forall>e\<in>set ?es. entry_count e = entry_count m \<longrightarrow> entry_id m \<le> entry_id e"
    by auto
  from mem obtain a where a: "a \<in> set (attackTypes c)" and ma: "m = ?mk a"
    by (auto simp: es)
  have img: "\<And>b. b \<in> set (attackTypes c) \<Longrightarrow> ?mk b \<in> set ?es"
    by (simp add: es)
  have "mainThreat (getTrends d c p reports) = Some (item_name a)"
    using m ma by (simp add: getTrends_def Let_def)
  moreover have "\<forall>b\<in>set (attackTypes c). count_list ?keys (item_id b) \<le> count_list ?keys (item_id a)"
    using top img ma by fastforce
  moreover have "\<forall>b\<in>set (attackTypes c). count_list ?keys (item_id b) = count_list ?keys (item_id a)
      \<longrightarrow> item_id a \<le> item_id b"
    using tie img ma by fastforce
  ultimately show ?thesis using a by blast
qed

theorem mainThreat_highest_count_witness:
  "mainThreat (getTrends 1 createDefaultCatalogs days7
        [\<lparr>row_id = 1, row_attackType = 3, row_impact = 1, row_status = 1, row_isAnonymous = True, row_createdAt = 0\<rparr>,
         \<lparr>row_id = 2, row_attackType = 2, row_impact = 1, row_status = 1, row_isAnonymous = True, row_createdAt = 0\<rparr>,
         \<lparr>row_id = 3, row_attackType = 3, row_impact = 1, row_status = 1, row_isAnonymous = True, row_createdAt = 0\<rparr>,
         \<lparr>row_id = 4, row_attackType = 2, row_impact = 1, row_status = 1, row_isAnonymous = True, row_createdAt = 0\<rparr>,
         \<lparr>row_id = 5, row_attackType = 5, row_impact = 1, row_status = 1, row_isAnonymous = True, row_createdAt = 0\<rparr>,
         \<lparr>row_id = 6, row_attackType = 6, row_impact = 1, row_status = 1, row_isAnonymous = True, row_createdAt = 0\<rparr>]) = Some ''SMS''"
  using mainThreat_highest_count [of
        "[\<lparr>row_id = 1, row_attackType = 3, row_impact = 1, row_status = 1, row_isAnonymous = True, row_createdAt = 0\<rparr>,
         \<lparr>row_id = 2, row_attackType = 2, row_impact = 1, row_status = 1, row_isAnonymous = True, row_createdAt = 0\<rparr>,
         \<lparr>row_id = 3, row_attackType = 3, row_impact = 1, row_status = 1, row_isAnonymous = True, row_createdAt = 0\<rparr>,
         \<lparr>row_id = 4, row_attackType = 2, row_impact = 1, row_status = 1, row_isAnonymous = True, row_createdAt = 0\<rparr>,
         \<lparr>row_id = 5, row_attackType = 5, row_impact = 1, row_status = 1, row_isAnonymous = True, row_createdAt = 0\<rparr>,
         \<lparr>row_id = 6, row_attackType = 6, row_impact = 1, row_status = 1, row_isAnonymous = True, row_createdAt = 0\<rparr>]" createDefaultCatalogs 1 days7]
  by (simp add: createDefaultCatalogs_def)

end
